theory Spec2Isabelle
  imports Complex_Main
begin

section \<open>The LightCurve class of the object-oriented programming notebook\<close>

text \<open>
  The notebook develops a class \<^verbatim>\<open>LightCurve\<close> in several steps; the model follows its last,
  documented definition: the initialiser, \<^verbatim>\<open>plot\<close>, the class method \<^verbatim>\<open>from_txt\<close> and
  \<^verbatim>\<open>clean\<close>.

  The class stores NumPy arrays and \<^verbatim>\<open>clean\<close> divides two of them in place
  (\<^verbatim>\<open>self.fluxes /= best_fit_model\<close>), so arrays are objects in a store: an attribute
  holds a reference, and two attributes may hold the same reference.

  The three NumPy functions the class calls (\<^verbatim>\<open>np.loadtxt\<close>, \<^verbatim>\<open>np.polyfit\<close>,
  \<^verbatim>\<open>np.polyval\<close>) are not code of the notebook. They are parameters of the model, collected
  in the record \<open>numpy\<close>; what the class does with their results is modelled as written.
  The element type \<open>'a\<close> is the type of the numbers an array holds; nothing is assumed
  about its division, which for \<^verbatim>\<open>float64\<close> rounds. Each array of the store has a dtype,
  since an in-place division into an array of integers is refused.
\<close>

subsection \<open>Exceptions\<close>

datatype error = IndexError | ValueError | TypeError | LinAlgError | OSError

subsection \<open>Arrays\<close>

text \<open>
  \<^verbatim>\<open>np.loadtxt\<close> returns an array of dimension 0, 1 or 2. A two-dimensional array is the
  list of its rows.
\<close>

datatype 'a ndarray = Arr0 'a | Arr1 "'a list" | Arr2 "'a list list"

text \<open>
  \<^verbatim>\<open>np.loadtxt\<close> is called with its default \<^verbatim>\<open>ndmin = 0\<close>: of the table it has parsed
  (the list of the rows of the file, all of one length) it removes every axis of length
  one. A file of a single column, like a file of a single row, is returned as a
  one-dimensional array; an empty file as an empty one-dimensional array.
\<close>

fun squeeze :: "'a list list \<Rightarrow> 'a ndarray" where
  "squeeze [] = Arr1 []"
| "squeeze [[x]] = Arr0 x"
| "squeeze [r] = Arr1 r"
| "squeeze rows =
     (if list_all (\<lambda>r. length r = 1) rows then Arr1 (map hd rows) else Arr2 rows)"

text \<open>
  \<^verbatim>\<open>data[i, :]\<close> for a literal row number \<open>i\<close>: row \<open>i\<close> of a two-dimensional array;
  IndexError when the row is out of bounds, and when the array has fewer than two
  dimensions (too many indices).
\<close>

fun getrow :: "'a ndarray \<Rightarrow> nat \<Rightarrow> error + 'a list" where
  "getrow (Arr2 rows) i = (if i < length rows then Inr (rows ! i) else Inl IndexError)"
| "getrow (Arr1 xs) i = Inl IndexError"
| "getrow (Arr0 x) i = Inl IndexError"

subsection \<open>The store of one-dimensional arrays\<close>

type_synonym ref = nat

text \<open>
  The dtypes of the arrays the notebook makes: \<^verbatim>\<open>np.random.randint\<close> gives integers,
  everything else (\<^verbatim>\<open>np.linspace\<close>, \<^verbatim>\<open>np.random.randn\<close>, \<^verbatim>\<open>np.loadtxt\<close>) floats.
\<close>

datatype dtype = Int64 | Float64

record 'a heap =
  arrays :: "ref \<Rightarrow> 'a list"
  dtypes :: "ref \<Rightarrow> dtype"
  next_ref :: ref

text \<open>A new array of floats, as \<^verbatim>\<open>np.loadtxt\<close> and the views of its rows are.\<close>

definition new_array :: "'a list \<Rightarrow> 'a heap \<Rightarrow> ref \<times> 'a heap" where
  "new_array xs h =
     (next_ref h,
      h\<lparr>arrays := (arrays h)(next_ref h := xs),
        dtypes := (dtypes h)(next_ref h := Float64),
        next_ref := Suc (next_ref h)\<rparr>)"

subsection \<open>The NumPy functions used by the class\<close>

text \<open>
  \<open>loadtxt path\<close> is the array parsed from the file at \<open>path\<close>, or the exception raised;
  \<open>polyfit x y deg\<close> is the coefficient vector (highest power first), or the exception
  raised; \<open>polyval p x\<close> is the value at the point \<open>x\<close> of the polynomial with coefficients
  \<open>p\<close> (\<^verbatim>\<open>np.polyval\<close> applies it to every element of an array).
\<close>

record 'a numpy =
  loadtxt :: "string \<Rightarrow> error + 'a ndarray"
  polyfit :: "'a list \<Rightarrow> 'a list \<Rightarrow> int \<Rightarrow> error + 'a list"
  polyval :: "'a list \<Rightarrow> 'a \<Rightarrow> 'a"

subsection \<open>The class\<close>

text \<open>
  The four sequence attributes are references to arrays (the docstring declares them
  array-like; the default \<^verbatim>\<open>None\<close> of the initialiser is left to the attribute
  \<open>name\<close>, the only one the class itself leaves at it). The attribute \<^verbatim>\<open>times\<close> is
  called \<open>times_lc\<close>.
\<close>

record LightCurve =
  times_lc :: ref
  fluxes :: ref
  uncertainties :: ref
  flags :: ref
  name :: "string option"
  cleaned :: bool

definition LightCurve_init ::
  "ref \<Rightarrow> ref \<Rightarrow> ref \<Rightarrow> ref \<Rightarrow> string option \<Rightarrow> LightCurve" where
  "LightCurve_init times' fluxes' uncertainties' flags' name' =
     \<lparr>times_lc = times', fluxes = fluxes', uncertainties = uncertainties', flags = flags',
      name = name', cleaned = False\<rparr>"

text \<open>
  \<^verbatim>\<open>from_txt\<close>: the four rows are taken in order, each a view of its own row of \<open>data\<close>,
  so each is an array object of its own. An exception leaves the store as it was and
  returns no object.
\<close>

definition from_txt :: "'a numpy \<Rightarrow> string \<Rightarrow> 'a heap \<Rightarrow> (error + LightCurve) \<times> 'a heap" where
  "from_txt np path h =
     (case loadtxt np path of
        Inl e \<Rightarrow> (Inl e, h)
      | Inr data \<Rightarrow>
         (case getrow data 0 of
            Inl e \<Rightarrow> (Inl e, h)
          | Inr r0 \<Rightarrow>
         (case getrow data 1 of
            Inl e \<Rightarrow> (Inl e, h)
          | Inr r1 \<Rightarrow>
         (case getrow data 2 of
            Inl e \<Rightarrow> (Inl e, h)
          | Inr r2 \<Rightarrow>
         (case getrow data 3 of
            Inl e \<Rightarrow> (Inl e, h)
          | Inr r3 \<Rightarrow>
             (let (times', h1) = new_array r0 h;
                  (fluxes', h2) = new_array r1 h1;
                  (uncertainties', h3) = new_array r2 h2;
                  (flags', h4) = new_array r3 h3
              in (Inr (LightCurve_init times' fluxes' uncertainties' flags' None), h4)))))))"

text \<open>
  In-place division \<^verbatim>\<open>a /= b\<close> of a one-dimensional array \<open>a\<close> of dtype \<open>dt\<close> by an array
  \<open>b\<close> of floats. The quotient of the division is a float, and NumPy refuses to store it
  in an array of integers: the types are checked first, and the exception (UFuncTypeError)
  is a TypeError. Otherwise the division is element by element when the lengths agree,
  of every element by the single element of \<open>b\<close> when \<open>b\<close> has length one (broadcasting),
  and a ValueError for other lengths. Division of numbers itself never raises.
\<close>

definition itruediv :: "dtype \<Rightarrow> 'a::inverse list \<Rightarrow> 'a list \<Rightarrow> error + 'a list" where
  "itruediv dt a b =
     (if dt = Int64 then Inl TypeError
      else if length b = length a then Inr (map2 (/) a b)
      else if length b = 1 then Inr (map (\<lambda>x. x / hd b) a)
      else Inl ValueError)"

text \<open>
  \<^verbatim>\<open>clean\<close>: the result is the exception or normal return, together with the object and
  the store as the call leaves them (the object and its arrays are mutated in place, so a
  caller sees them after an exception too). The order is an argument here; a call without
  one passes 1.
\<close>

definition clean ::
  "'a::inverse numpy \<Rightarrow> LightCurve \<Rightarrow> int \<Rightarrow> 'a heap \<Rightarrow> (error + unit) \<times> LightCurve \<times> 'a heap" where
  "clean np self order h =
     (case polyfit np (arrays h (times_lc self)) (arrays h (fluxes self)) order of
        Inl e \<Rightarrow> (Inl e, self, h)
      | Inr poly_params \<Rightarrow>
         (let best_fit_model = map (polyval np poly_params) (arrays h (times_lc self))
          in case itruediv (dtypes h (fluxes self)) (arrays h (fluxes self)) best_fit_model of
               Inl e \<Rightarrow> (Inl e, self, h)
             | Inr fs \<Rightarrow>
                (let h1 = h\<lparr>arrays := (arrays h)(fluxes self := fs)\<rparr>
                 in case itruediv (dtypes h1 (uncertainties self))
                           (arrays h1 (uncertainties self)) best_fit_model of
                      Inl e \<Rightarrow> (Inl e, self, h1)
                    | Inr us \<Rightarrow>
                       (Inr (),
                        self\<lparr>cleaned := True\<rparr>,
                        h1\<lparr>arrays := (arrays h1)(uncertainties self := us)\<rparr>))))"

text \<open>\<^verbatim>\<open>plot\<close>: the calls made to the plotting library, in order; nothing is assigned.\<close>

datatype 'a plt_call =
  Errorbar "'a list" "'a list" "'a list" string
| Xlabel string
| Ylabel string
| Title "string option"

definition plot :: "LightCurve \<Rightarrow> 'a heap \<Rightarrow> 'a plt_call list \<times> LightCurve \<times> 'a heap" where
  "plot self h =
     ([Errorbar (arrays h (times_lc self)) (arrays h (fluxes self))
         (arrays h (uncertainties self)) ''o'',
       Xlabel ''Time'', Ylabel ''Flux'', Title (name self)],
      self, h)"

subsection \<open>Writing a table\<close>

text \<open>
  Modelled from the spec: the script that writes the sample files
  (\<^verbatim>\<open>generate_lcs.py\<close>) is not among the sources. The spec has a record written as a
  table of four rows in the fixed order time, flux, uncertainty, flag.
\<close>

definition to_table :: "LightCurve \<Rightarrow> 'a heap \<Rightarrow> 'a list list" where
  "to_table lc h =
     [arrays h (times_lc lc), arrays h (fluxes lc),
      arrays h (uncertainties lc), arrays h (flags lc)]"

text \<open>
  Modelled from the spec: writing the table of a record to the file at \<open>path\<close>. The
  library is the one before, but for what \<^verbatim>\<open>np.loadtxt\<close> finds at \<open>path\<close>: the table
  written, with the numbers as they were (the text of a number is taken to read back as
  the number), in the form \<^verbatim>\<open>np.loadtxt\<close> returns it.
\<close>

definition write_table :: "'a numpy \<Rightarrow> string \<Rightarrow> LightCurve \<Rightarrow> 'a heap \<Rightarrow> 'a numpy" where
  "write_table np path lc h =
     np\<lparr>loadtxt := (loadtxt np)(path := Inr (squeeze (to_table lc h)))\<rparr>"

subsection \<open>Exact arithmetic and least squares\<close>

text \<open>
  Over the reals: the value of a polynomial by Horner's rule, the sum of the squared
  residuals of a polynomial on the points \<open>(x, y)\<close>, and what it means for a coefficient
  vector to be a least-squares fit of degree \<open>deg\<close>.
\<close>

definition horner :: "real list \<Rightarrow> real \<Rightarrow> real" where
  "horner p x = foldl (\<lambda>acc c. acc * x + c) 0 p"

definition residual :: "real list \<Rightarrow> real list \<Rightarrow> real list \<Rightarrow> real" where
  "residual p x y = (\<Sum>(xi, yi) \<leftarrow> zip x y. (horner p xi - yi)\<^sup>2)"

definition least_squares :: "real list \<Rightarrow> real list \<Rightarrow> int \<Rightarrow> real list \<Rightarrow> bool" where
  "least_squares x y deg p \<longleftrightarrow>
     int (length p) = deg + 1 \<and>
     (\<forall>q. length q = length p \<longrightarrow> residual p x y \<le> residual q x y)"

text \<open>
  The least-squares fits of order 0 and of order 1 in closed form, for a call with
  that order: the mean, and the regression line (of points not all at one abscissa).
\<close>

definition fit_mean :: "real list \<Rightarrow> real list \<Rightarrow> int \<Rightarrow> error + real list" where
  "fit_mean x y deg = Inr [sum_list y / real (length y)]"

definition fit_line :: "real list \<Rightarrow> real list \<Rightarrow> int \<Rightarrow> error + real list" where
  "fit_line x y deg =
     (let n = real (length x);
          sx = sum_list x; sy = sum_list y;
          sxx = sum_list (map2 (*) x x); sxy = sum_list (map2 (*) x y);
          slope = (n * sxy - sx * sy) / (n * sxx - sx * sx)
      in Inr [slope, (sy - slope * sx) / n])"

subsection \<open>Concrete runs\<close>

text \<open>
  A library instance for running the model on a concrete input: the file holds the
  table \<open>tbl\<close>, the fit answers \<open>ans\<close> (coefficients or an exception), and polynomials
  are evaluated exactly.
\<close>

definition np_example :: "real ndarray \<Rightarrow> error + real list \<Rightarrow> real numpy" where
  "np_example tbl ans =
     \<lparr>loadtxt = (\<lambda>path. Inr tbl), polyfit = (\<lambda>x y deg. ans), polyval = horner\<rparr>"

text \<open>A library instance with no file, whose fit is the function \<open>fit\<close>.\<close>

definition np_fit_by :: "(real list \<Rightarrow> real list \<Rightarrow> int \<Rightarrow> error + real list) \<Rightarrow> real numpy" where
  "np_fit_by fit =
     \<lparr>loadtxt = (\<lambda>path. Inl OSError), polyfit = fit, polyval = horner\<rparr>"

definition empty_heap :: "real heap" where
  "empty_heap = \<lparr>arrays = (\<lambda>r. []), dtypes = (\<lambda>r. Float64), next_ref = 0\<rparr>"

text \<open>The table of the scenario: three points of constant flux 1.\<close>

definition flat_table :: "real ndarray" where
  "flat_table = Arr2 [[0, 1, 2], [1, 1, 1], [1/10, 1/10, 1/10], [0, 0, 0]]"

text \<open>A table with one row too few, and a table with one row too many.\<close>

definition three_rows :: "real ndarray" where
  "three_rows = Arr2 [[0, 1, 2], [1, 1, 1], [1/10, 1/10, 1/10]]"

definition five_rows :: "real ndarray" where
  "five_rows = Arr2 [[0, 1], [1, 1], [1/10, 1/10], [0, 0], [7, 7]]"

text \<open>The rows of a file of four rows, and of a file of five rows, of a single column.\<close>

definition four_by_one :: "real list list" where
  "four_by_one = [[0], [1], [1/10], [0]]"

definition five_by_one :: "real list list" where
  "five_by_one = [[0], [1], [1/10], [0], [7]]"

text \<open>
  A record built by the initialiser from four arrays of its own, as the notebook builds
  \<^verbatim>\<open>prox_cen\<close>, and the store that holds them.
\<close>

definition flat_heap :: "real heap" where
  "flat_heap =
     \<lparr>arrays = (\<lambda>r. [])(0 := [0, 1, 2], 1 := [1, 1, 1], 2 := [1/10, 1/10, 1/10], 3 := [0, 0, 0]),
      dtypes = (\<lambda>r. Float64), next_ref = 4\<rparr>"

definition prox_cen :: LightCurve where
  "prox_cen = LightCurve_init 0 1 2 3 (Some ''proxima Centauri'')"

text \<open>
  Four arrays of two points with constant flux 2, and a record built on them by the
  initialiser with one array passed twice, as times and as fluxes.
\<close>

definition const_heap :: "real heap" where
  "const_heap =
     \<lparr>arrays = (\<lambda>r. [])(0 := [0, 1], 1 := [2, 2], 2 := [1/10, 1/10], 3 := [0, 0]),
      dtypes = (\<lambda>r. Float64), next_ref = 4\<rparr>"

definition shared_time_flux :: LightCurve where
  "shared_time_flux = LightCurve_init 1 1 2 3 None"

text \<open>A record of a single point, at time 1 with flux 2.\<close>

definition one_point_heap :: "real heap" where
  "one_point_heap =
     \<lparr>arrays = (\<lambda>r. [])(0 := [1], 1 := [2], 2 := [1/10], 3 := [0]),
      dtypes = (\<lambda>r. Float64), next_ref = 4\<rparr>"

definition one_point :: LightCurve where
  "one_point = LightCurve_init 0 1 2 3 None"



text \<open>A record of three points that are not on a line.\<close>

definition bent_heap :: "real heap" where
  "bent_heap =
     \<lparr>arrays = (\<lambda>r. [])(0 := [0, 1, 2], 1 := [2, 0, 4], 2 := [1, 1, 1], 3 := [0, 0, 0]),
      dtypes = (\<lambda>r. Float64), next_ref = 4\<rparr>"

definition bent :: LightCurve where
  "bent = LightCurve_init 0 1 2 3 None"

section \<open>Loading\<close>

lemma from_txt_rows:
  assumes "loadtxt np path = Inr (Arr2 (r0 # r1 # r2 # r3 # rest))"
  shows "from_txt np path h =
     (Inr (LightCurve_init (next_ref h) (next_ref h + 1) (next_ref h + 2) (next_ref h + 3) None),
      h\<lparr>arrays := (arrays h)(next_ref h := r0, next_ref h + 1 := r1,
                               next_ref h + 2 := r2, next_ref h + 3 := r3),
        dtypes := (dtypes h)(next_ref h := Float64, next_ref h + 1 := Float64,
                               next_ref h + 2 := Float64, next_ref h + 3 := Float64),
        next_ref := next_ref h + 4\<rparr>)"
  using assms by (simp add: from_txt_def new_array_def eval_nat_numeral)

lemma from_txt_loadtxt_error:
  "loadtxt np path = Inl e \<Longrightarrow> from_txt np path h = (Inl e, h)"
  by (simp add: from_txt_def)

text \<open>An array of fewer than two dimensions is rejected.\<close>

lemma from_txt_not_2d:
  "loadtxt np path = Inr (Arr1 xs) \<Longrightarrow> from_txt np path h = (Inl IndexError, h)"
  "loadtxt np path = Inr (Arr0 x) \<Longrightarrow> from_txt np path h = (Inl IndexError, h)"
  by (simp_all add: from_txt_def)

lemma from_txt_few_rows:
  assumes "loadtxt np path = Inr (Arr2 rows)" and "length rows < 4"
  shows "from_txt np path h = (Inl IndexError, h)"
  using assms by (auto simp: from_txt_def split: sum.splits if_splits)

lemma at_least_four:
  assumes "4 \<le> length (rows :: 'a list)"
  obtains r0 r1 r2 r3 rest where "rows = r0 # r1 # r2 # r3 # rest"
proof -
  from assms obtain r0 t0 where "rows = r0 # t0" by (cases rows) auto
  moreover from this assms obtain r1 t1 where "t0 = r1 # t1" by (cases t0) auto
  moreover from calculation assms obtain r2 t2 where "t1 = r2 # t2" by (cases t1) auto
  moreover from calculation assms obtain r3 t3 where "t2 = r3 # t3" by (cases t2) auto
  ultimately show ?thesis using that by blast
qed

text \<open>
  What \<^verbatim>\<open>np.loadtxt\<close> makes of a table of at least two rows: the table itself when the
  rows have at least two columns, the column as a one-dimensional array when they have
  one.
\<close>

lemma squeeze_wide:
  assumes "2 \<le> length rows" and "\<forall>r \<in> set rows. length r = N" and "2 \<le> N"
  shows "squeeze rows = Arr2 rows"
proof -
  from assms(1) obtain r0 r1 rest where rows: "rows = r0 # r1 # rest"
    by (cases rows; cases "tl rows") auto
  with assms(2,3) have "length r0 \<noteq> 1" by auto
  with rows show ?thesis by simp
qed

lemma squeeze_column:
  assumes "2 \<le> length rows" and "\<forall>r \<in> set rows. length r = 1"
  shows "squeeze rows = Arr1 (map hd rows)"
proof -
  from assms(1) obtain r0 r1 rest where rows: "rows = r0 # r1 # rest"
    by (cases rows; cases "tl rows") auto
  with assms(2) show ?thesis by (simp add: list_all_iff)
qed

text \<open>
  C1, as the code has it: when the file holds a table of exactly four rows of \<open>N\<close> columns
  with \<open>N\<close> at least 2, the loader returns a LightCurve whose times, fluxes, uncertainties
  and flags are rows 0, 1, 2 and 3 of the table, each of length \<open>N\<close>, whose \<open>cleaned\<close> flag
  is false and whose name is absent.
\<close>

theorem from_txt_four_rows:
  assumes "loadtxt np path = Inr (squeeze [r0, r1, r2, r3])"
    and "\<forall>r \<in> set [r0, r1, r2, r3]. length r = N"
    and "2 \<le> N"
  shows "case from_txt np path h of
           (Inr lc, h') \<Rightarrow>
              arrays h' (times_lc lc) = r0 \<and> arrays h' (fluxes lc) = r1 \<and>
              arrays h' (uncertainties lc) = r2 \<and> arrays h' (flags lc) = r3 \<and>
              length (arrays h' (times_lc lc)) = N \<and> length (arrays h' (fluxes lc)) = N \<and>
              length (arrays h' (uncertainties lc)) = N \<and> length (arrays h' (flags lc)) = N \<and>
              \<not> cleaned lc \<and> name lc = None
         | (Inl e, h') \<Rightarrow> False"
proof -
  have "squeeze [r0, r1, r2, r3] = Arr2 [r0, r1, r2, r3]"
    using assms(2,3) by (intro squeeze_wide) simp_all
  with assms show ?thesis
    by (simp add: from_txt_rows LightCurve_init_def)
qed

theorem from_txt_four_rows_witness:
  "loadtxt (np_example flat_table (Inr [1])) ''lc_0.txt'' =
     Inr (squeeze [[0, 1, 2], [1, 1, 1], [1/10, 1/10, 1/10], [0, 0, 0]]) \<and>
   (case from_txt (np_example flat_table (Inr [1])) ''lc_0.txt'' empty_heap of
      (Inr lc, h') \<Rightarrow>
         arrays h' (times_lc lc) = [0, 1, 2] \<and> arrays h' (fluxes lc) = [1, 1, 1] \<and>
         arrays h' (uncertainties lc) = [1/10, 1/10, 1/10] \<and> arrays h' (flags lc) = [0, 0, 0] \<and>
         length (arrays h' (flags lc)) = 3 \<and> \<not> cleaned lc \<and> name lc = None
    | (Inl e, h') \<Rightarrow> False)"
proof -
  have l: "loadtxt (np_example flat_table (Inr [1])) ''lc_0.txt'' =
     Inr (squeeze [[0, 1, 2], [1, 1, 1], [1/10, 1/10, 1/10], [0, 0, 0]])"
    by (simp add: np_example_def flat_table_def)
  have n: "\<forall>r \<in> set [[0, 1, 2], [1, 1, 1], [1/10, 1/10, 1/10], [0, 0, 0::real]]. length r = 3"
    by simp
  have w: "2 \<le> (3::nat)" by simp
  show ?thesis
    using l from_txt_four_rows [OF l n w, of empty_heap]
    by (auto split: prod.splits sum.splits)
qed

text \<open>
  C1 as stated fails on a table of four rows of one column: \<^verbatim>\<open>np.loadtxt\<close> returns it as
  a one-dimensional array of four numbers, and \<^verbatim>\<open>data[0, :]\<close> raises IndexError.
\<close>

theorem from_txt_four_rows_counterexample:
  "four_by_one = [[0], [1], [1/10], [0]] \<and>
   squeeze four_by_one = Arr1 [0, 1, 1/10, 0] \<and>
   loadtxt (np_example (squeeze four_by_one) (Inr [1])) ''lc_0.txt'' =
     Inr (squeeze four_by_one) \<and>
   from_txt (np_example (squeeze four_by_one) (Inr [1])) ''lc_0.txt'' empty_heap =
     (Inl IndexError, empty_heap)"
  by (simp add: four_by_one_def np_example_def from_txt_def)

text \<open>
  C10, as the code has it: when the file holds a table of more than four rows of \<open>N\<close>
  columns with \<open>N\<close> at least 2, the loader does not fail: it builds the LightCurve from
  rows 0 to 3 and ignores the others.
\<close>

theorem from_txt_extra_rows:
  assumes "loadtxt np path = Inr (squeeze rows)"
    and "4 < length rows"
    and "\<forall>r \<in> set rows. length r = N"
    and "2 \<le> N"
  shows "case from_txt np path h of
           (Inr lc, h') \<Rightarrow>
              arrays h' (times_lc lc) = rows ! 0 \<and> arrays h' (fluxes lc) = rows ! 1 \<and>
              arrays h' (uncertainties lc) = rows ! 2 \<and> arrays h' (flags lc) = rows ! 3 \<and>
              length (arrays h' (times_lc lc)) = N \<and> length (arrays h' (fluxes lc)) = N \<and>
              length (arrays h' (uncertainties lc)) = N \<and> length (arrays h' (flags lc)) = N \<and>
              \<not> cleaned lc \<and> name lc = None
         | (Inl e, h') \<Rightarrow> False"
proof -
  from assms(2) have "4 \<le> length rows" by simp
  then obtain r0 r1 r2 r3 rest where rows: "rows = r0 # r1 # r2 # r3 # rest"
    by (rule at_least_four)
  with assms(3) have "length r0 = N" "length r1 = N" "length r2 = N" "length r3 = N"
    by simp_all
  moreover have "squeeze rows = Arr2 rows"
    using assms(2,3,4) by (intro squeeze_wide) simp_all
  ultimately show ?thesis
    using assms(1) rows by (simp add: from_txt_rows LightCurve_init_def)
qed

theorem from_txt_extra_rows_witness:
  "loadtxt (np_example five_rows (Inr [1])) ''lc_0.txt'' =
     Inr (squeeze [[0, 1], [1, 1], [1/10, 1/10], [0, 0], [7, 7]]) \<and>
   (case from_txt (np_example five_rows (Inr [1])) ''lc_0.txt'' empty_heap of
      (Inr lc, h') \<Rightarrow>
         arrays h' (times_lc lc) = [0, 1] \<and> arrays h' (fluxes lc) = [1, 1] \<and>
         arrays h' (uncertainties lc) = [1/10, 1/10] \<and> arrays h' (flags lc) = [0, 0] \<and>
         \<not> cleaned lc \<and> name lc = None
    | (Inl e, h') \<Rightarrow> False)"
proof -
  have l: "loadtxt (np_example five_rows (Inr [1])) ''lc_0.txt'' =
     Inr (squeeze [[0, 1], [1, 1], [1/10, 1/10], [0, 0], [7, 7]])"
    by (simp add: np_example_def five_rows_def)
  have n: "4 < length [[0, 1], [1, 1], [1/10, 1/10], [0, 0], [7, 7::real]]"
    by simp
  have c: "\<forall>r \<in> set [[0, 1], [1, 1], [1/10, 1/10], [0, 0], [7, 7::real]]. length r = 2"
    by simp
  have w: "2 \<le> (2::nat)" by simp
  show ?thesis
    using l from_txt_extra_rows [OF l n c w, of empty_heap]
    by (auto split: prod.splits sum.splits)
qed

text \<open>
  C10 as stated fails on a table of five rows of one column: \<^verbatim>\<open>np.loadtxt\<close> returns it
  as a one-dimensional array of five numbers, and the loader fails with IndexError.
\<close>

theorem from_txt_extra_rows_counterexample:
  "five_by_one = [[0], [1], [1/10], [0], [7]] \<and>
   squeeze five_by_one = Arr1 [0, 1, 1/10, 0, 7] \<and>
   loadtxt (np_example (squeeze five_by_one) (Inr [1])) ''lc_0.txt'' =
     Inr (squeeze five_by_one) \<and>
   from_txt (np_example (squeeze five_by_one) (Inr [1])) ''lc_0.txt'' empty_heap =
     (Inl IndexError, empty_heap)"
  by (simp add: five_by_one_def np_example_def from_txt_def)

text \<open>
  C3, as the code has it: the loader fails, returning no object and leaving the store as
  it was, when \<^verbatim>\<open>np.loadtxt\<close> fails (with the exception of \<^verbatim>\<open>np.loadtxt\<close>), and when the
  array loaded is not two-dimensional or has fewer than four rows, in particular three
  (with IndexError, an exception of the kind the spec calls FormatError).
\<close>

theorem from_txt_rejects:
  assumes "case loadtxt np path of
             Inl e \<Rightarrow> True
           | Inr (Arr2 rows) \<Rightarrow> length rows < 4
           | Inr (Arr1 xs) \<Rightarrow> True
           | Inr (Arr0 x) \<Rightarrow> True"
  shows "from_txt np path h =
           (Inl (case loadtxt np path of Inl e \<Rightarrow> e | Inr data \<Rightarrow> IndexError), h)"
proof (cases "loadtxt np path")
  case (Inl e)
  then show ?thesis by (simp add: from_txt_loadtxt_error)
next
  case (Inr data)
  with assms show ?thesis
    by (cases data) (simp_all add: from_txt_not_2d from_txt_few_rows)
qed

theorem from_txt_rejects_witness:
  "loadtxt (np_example three_rows (Inr [1])) ''lc_0.txt'' =
     Inr (Arr2 [[0, 1, 2], [1, 1, 1], [1/10, 1/10, 1/10]]) \<and>
   from_txt (np_example three_rows (Inr [1])) ''lc_0.txt'' empty_heap = (Inl IndexError, empty_heap)"
proof -
  have l: "loadtxt (np_example three_rows (Inr [1])) ''lc_0.txt'' =
     Inr (Arr2 [[0, 1, 2], [1, 1, 1], [1/10, 1/10, 1/10]])"
    by (simp add: np_example_def three_rows_def)
  then have "case loadtxt (np_example three_rows (Inr [1])) ''lc_0.txt'' of
             Inl e \<Rightarrow> True
           | Inr (Arr2 rows) \<Rightarrow> length rows < 4
           | Inr (Arr1 xs) \<Rightarrow> True
           | Inr (Arr0 x) \<Rightarrow> True"
    by simp
  from from_txt_rejects [OF this, of empty_heap] l show ?thesis
    by simp
qed

text \<open>
  C3 as stated fails on a table that is not of four rows because it has five: the loader
  returns a LightCurve.
\<close>

theorem from_txt_rejects_counterexample:
  "five_rows = Arr2 [[0, 1], [1, 1], [1/10, 1/10], [0, 0], [7, 7]] \<and>
   loadtxt (np_example five_rows (Inr [1])) ''lc_0.txt'' = Inr five_rows \<and>
   fst (from_txt (np_example five_rows (Inr [1])) ''lc_0.txt'' empty_heap) =
     Inr (LightCurve_init 0 1 2 3 None)"
  by (simp add: five_rows_def np_example_def from_txt_def new_array_def empty_heap_def
      eval_nat_numeral)

text \<open>
  C5, as the code has it: for a LightCurve whose four sequences have one length \<open>N\<close>, at
  least 2, writing its times, fluxes, uncertainties and flags as a table of four rows and
  loading that table gives a record with the same four sequences.
\<close>

theorem from_txt_write_table:
  assumes "length (arrays h0 (times_lc lc)) = N" and "length (arrays h0 (fluxes lc)) = N"
    and "length (arrays h0 (uncertainties lc)) = N" and "length (arrays h0 (flags lc)) = N"
    and "2 \<le> N"
  shows "case from_txt (write_table np path lc h0) path h of
           (Inr lc', h') \<Rightarrow>
              arrays h' (times_lc lc') = arrays h0 (times_lc lc) \<and>
              arrays h' (fluxes lc') = arrays h0 (fluxes lc) \<and>
              arrays h' (uncertainties lc') = arrays h0 (uncertainties lc) \<and>
              arrays h' (flags lc') = arrays h0 (flags lc)
         | (Inl e, h') \<Rightarrow> False"
proof -
  have "squeeze (to_table lc h0) = Arr2 (to_table lc h0)"
    using assms by (intro squeeze_wide [where N = N]) (simp_all add: to_table_def)
  then have "loadtxt (write_table np path lc h0) path =
      Inr (Arr2 [arrays h0 (times_lc lc), arrays h0 (fluxes lc),
                 arrays h0 (uncertainties lc), arrays h0 (flags lc)])"
    by (simp add: write_table_def to_table_def)
  then show ?thesis
    by (simp add: from_txt_rows LightCurve_init_def)
qed

theorem from_txt_write_table_witness:
  "length (arrays flat_heap (times_lc prox_cen)) = 3 \<and>
   length (arrays flat_heap (fluxes prox_cen)) = 3 \<and>
   length (arrays flat_heap (uncertainties prox_cen)) = 3 \<and>
   length (arrays flat_heap (flags prox_cen)) = 3 \<and>
   (case from_txt (write_table (np_fit_by fit_mean) ''lc_0.txt'' prox_cen flat_heap)
           ''lc_0.txt'' flat_heap of
      (Inr lc', h') \<Rightarrow>
         arrays h' (times_lc lc') = [0, 1, 2] \<and> arrays h' (fluxes lc') = [1, 1, 1] \<and>
         arrays h' (uncertainties lc') = [1/10, 1/10, 1/10] \<and> arrays h' (flags lc') = [0, 0, 0]
    | (Inl e, h') \<Rightarrow> False)"
proof -
  have a: "arrays flat_heap (times_lc prox_cen) = [0, 1, 2]"
    "arrays flat_heap (fluxes prox_cen) = [1, 1, 1]"
    "arrays flat_heap (uncertainties prox_cen) = [1/10, 1/10, 1/10]"
    "arrays flat_heap (flags prox_cen) = [0, 0, 0]"
    by (simp_all add: flat_heap_def prox_cen_def LightCurve_init_def)
  have t: "length (arrays flat_heap (times_lc prox_cen)) = 3"
    and f: "length (arrays flat_heap (fluxes prox_cen)) = 3"
    and u: "length (arrays flat_heap (uncertainties prox_cen)) = 3"
    and g: "length (arrays flat_heap (flags prox_cen)) = 3"
    by (simp_all add: a)
  have w: "2 \<le> (3::nat)" by simp
  show ?thesis
    using t f u g a
      from_txt_write_table [OF t f u g w, of "np_fit_by fit_mean" "''lc_0.txt''" flat_heap]
    by (auto split: prod.splits sum.splits)
qed

text \<open>
  C5 as stated fails on a record of a single point: the table written has four rows of
  one column, \<^verbatim>\<open>np.loadtxt\<close> returns it as a one-dimensional array, and the loader fails
  with IndexError.
\<close>

theorem from_txt_write_table_counterexample:
  "to_table one_point one_point_heap = [[1], [2], [1/10], [0]] \<and>
   loadtxt (write_table (np_fit_by fit_mean) ''lc_0.txt'' one_point one_point_heap) ''lc_0.txt'' =
     Inr (Arr1 [1, 2, 1/10, 0]) \<and>
   from_txt (write_table (np_fit_by fit_mean) ''lc_0.txt'' one_point one_point_heap) ''lc_0.txt''
       one_point_heap =
     (Inl IndexError, one_point_heap)"
proof -
  have t: "to_table one_point one_point_heap = [[1], [2], [1/10], [0]]"
    by (simp add: to_table_def one_point_def one_point_heap_def LightCurve_init_def)
  have l: "loadtxt (write_table (np_fit_by fit_mean) ''lc_0.txt'' one_point one_point_heap)
      ''lc_0.txt'' = Inr (Arr1 [1, 2, 1/10, 0])"
    by (simp add: write_table_def t)
  from t l from_txt_not_2d(1) [OF l] show ?thesis by simp
qed

section \<open>Detrending\<close>

lemma itruediv_same_length:
  "dt = Float64 \<Longrightarrow> length b = length a \<Longrightarrow> itruediv dt a b = Inr (map2 (/) a b)"
  by (simp add: itruediv_def)

lemma itruediv_length:
  "itruediv dt a b = Inr c \<Longrightarrow> length c = length a"
  by (auto simp: itruediv_def split: if_splits)

lemma clean_success:
  assumes "polyfit np (arrays h (times_lc lc)) (arrays h (fluxes lc)) order = Inr p"
    and "length (arrays h (fluxes lc)) = length (arrays h (times_lc lc))"
    and "length (arrays h (uncertainties lc)) = length (arrays h (times_lc lc))"
    and "fluxes lc \<noteq> uncertainties lc"
    and "dtypes h (fluxes lc) = Float64" and "dtypes h (uncertainties lc) = Float64"
  shows "clean np lc order h =
     (Inr (), lc\<lparr>cleaned := True\<rparr>,
      h\<lparr>arrays := (arrays h)
         (fluxes lc := map2 (/) (arrays h (fluxes lc))
                          (map (polyval np p) (arrays h (times_lc lc))),
          uncertainties lc := map2 (/) (arrays h (uncertainties lc))
                          (map (polyval np p) (arrays h (times_lc lc))))\<rparr>)"
  using assms by (simp add: clean_def Let_def itruediv_same_length)

lemma clean_attributes:
  assumes "clean np lc order h = (res, lc', h')"
  shows "times_lc lc' = times_lc lc" "fluxes lc' = fluxes lc"
    "uncertainties lc' = uncertainties lc" "flags lc' = flags lc" "name lc' = name lc"
  using assms by (auto simp: clean_def Let_def split: sum.splits)

lemma clean_other_arrays:
  assumes "clean np lc order h = (res, lc', h')"
    and "r \<noteq> fluxes lc" and "r \<noteq> uncertainties lc"
  shows "arrays h' r = arrays h r"
  using assms by (auto simp: clean_def Let_def split: sum.splits)

lemma clean_next_ref:
  assumes "clean np lc order h = (res, lc', h')"
  shows "next_ref h' = next_ref h"
  using assms by (auto simp: clean_def Let_def split: sum.splits)

lemma clean_dtypes:
  assumes "clean np lc order h = (res, lc', h')"
  shows "dtypes h' = dtypes h"
  using assms by (auto simp: clean_def Let_def split: sum.splits)

lemma clean_array_length:
  assumes "clean np lc order h = (res, lc', h')"
  shows "length (arrays h' r) = length (arrays h r)"
  using assms by (auto simp: clean_def Let_def split: sum.splits if_splits dest!: itruediv_length)

lemma from_txt_cases:
  "(\<exists>e. from_txt np path h = (Inl e, h)) \<or>
   (\<exists>r0 r1 r2 r3 rest. loadtxt np path = Inr (Arr2 (r0 # r1 # r2 # r3 # rest)))"
proof (cases "loadtxt np path")
  case (Inl e)
  then show ?thesis by (simp add: from_txt_loadtxt_error)
next
  case (Inr data)
  show ?thesis
  proof (cases data)
    case (Arr2 rows)
    show ?thesis
    proof (cases "4 \<le> length rows")
      case True
      then obtain r0 r1 r2 r3 rest where "rows = r0 # r1 # r2 # r3 # rest"
        by (rule at_least_four)
      with Inr Arr2 show ?thesis by simp
    next
      case False
      with Inr Arr2 show ?thesis by (simp add: from_txt_few_rows)
    qed
  qed (use Inr in \<open>simp_all add: from_txt_not_2d\<close>)
qed

lemma from_txt_old_arrays:
  assumes "from_txt np path h = (res, h')" and "r < next_ref h"
  shows "arrays h' r = arrays h r"
  using from_txt_cases [of np path h] assms by (auto simp: from_txt_rows)

text \<open>The four arrays of a record made by the loader are new, distinct, and of floats.\<close>

lemma from_txt_distinct:
  assumes "from_txt np path h = (Inr lc, h')"
  shows "distinct [times_lc lc, fluxes lc, uncertainties lc, flags lc]"
    and "next_ref h \<le> times_lc lc" "next_ref h \<le> fluxes lc"
    and "next_ref h \<le> uncertainties lc" "next_ref h \<le> flags lc"
    and "dtypes h' (times_lc lc) = Float64" "dtypes h' (fluxes lc) = Float64"
    and "dtypes h' (uncertainties lc) = Float64" "dtypes h' (flags lc) = Float64"
  using from_txt_cases [of np path h] assms
  by (auto simp: from_txt_rows LightCurve_init_def)

lemma horner_const: "horner [c] x = c"
  by (simp add: horner_def)

lemma residual_nonneg: "0 \<le> residual p x y"
  unfolding residual_def by (rule sum_list_nonneg) auto

lemma least_squares_exact:
  assumes "int (length p) = deg + 1" and "residual p x y = 0"
  shows "least_squares x y deg p"
  using assms by (simp add: least_squares_def residual_nonneg)




text \<open>
  C4, as the code has it: detrending fails whenever \<^verbatim>\<open>np.polyfit\<close> raises, with the
  exception of \<^verbatim>\<open>np.polyfit\<close>, and then the record and its arrays are as they were
  (\<open>cleaned\<close> keeps its value).
\<close>

theorem clean_polyfit_raises:
  assumes "polyfit np (arrays h (times_lc lc)) (arrays h (fluxes lc)) order = Inl e"
  shows "clean np lc order h = (Inl e, lc, h)"
  using assms by (simp add: clean_def)

theorem clean_polyfit_raises_witness:
  "polyfit (np_example flat_table (Inl LinAlgError)) (arrays one_point_heap (times_lc one_point))
      (arrays one_point_heap (fluxes one_point)) 1 = Inl LinAlgError \<and>
   clean (np_example flat_table (Inl LinAlgError)) one_point 1 one_point_heap =
     (Inl LinAlgError, one_point, one_point_heap) \<and>
   \<not> cleaned one_point"
proof -
  have p: "polyfit (np_example flat_table (Inl LinAlgError))
      (arrays one_point_heap (times_lc one_point))
      (arrays one_point_heap (fluxes one_point)) 1 = Inl LinAlgError"
    by (simp add: np_example_def)
  show ?thesis
    using p clean_polyfit_raises [OF p]
    by (simp add: one_point_def LightCurve_init_def)
qed

text \<open>
  C4 as stated fails where the order is not below the number of points and the fit
  returns: one point, order 1, and the coefficients 1, 1 of a line through the point (a
  least-squares fit). Detrending succeeds and sets \<open>cleaned\<close>.
\<close>

theorem clean_polyfit_raises_counterexample:
  "arrays one_point_heap (times_lc one_point) = [1] \<and>
   arrays one_point_heap (fluxes one_point) = [2] \<and>
   int (length (arrays one_point_heap (times_lc one_point))) \<le> 1 \<and>
   least_squares [1] [2] 1 [1, 1] \<and>
   clean (np_example flat_table (Inr [1, 1])) one_point 1 one_point_heap =
     (Inr (), one_point\<lparr>cleaned := True\<rparr>,
      one_point_heap\<lparr>arrays := (arrays one_point_heap)(1 := [1], 2 := [1/20])\<rparr>)"
proof -
  have "least_squares [1] [2] 1 [1, 1]"
    by (rule least_squares_exact) (simp_all add: residual_def horner_def)
  moreover have "clean (np_example flat_table (Inr [1, 1])) one_point 1 one_point_heap =
     (Inr (), one_point\<lparr>cleaned := True\<rparr>,
      one_point_heap\<lparr>arrays := (arrays one_point_heap)(1 := [1], 2 := [1/20])\<rparr>)"
    by (simp add: clean_def np_example_def one_point_def one_point_heap_def
        LightCurve_init_def itruediv_def horner_def)
  ultimately show ?thesis
    by (simp add: one_point_def one_point_heap_def LightCurve_init_def)
qed

text \<open>
  A quotient that is near \<open>1 / v\<close>, for \<open>v\<close> near 1, is near 1.
\<close>

lemma quotient_near_one:
  fixes v q eps rnd :: real
  assumes "\<bar>v - 1\<bar> \<le> eps" and "eps \<le> 1/2" and "\<bar>q - 1 / v\<bar> \<le> rnd * \<bar>1 / v\<bar>"
  shows "\<bar>q - 1\<bar> \<le> 2 * (eps + rnd)"
proof -
  from assms(1,2) have v: "1/2 \<le> v" by linarith
  then have pos: "0 < v" by linarith
  have inv: "1 / v \<le> 2"
    using v pos by (simp add: field_simps)
  have ipos: "0 < 1 / v" using pos by simp
  have rnd: "0 \<le> rnd"
  proof (rule ccontr)
    assume "\<not> 0 \<le> rnd"
    with ipos have "rnd * \<bar>1 / v\<bar> < 0"
      by (intro mult_neg_pos) simp_all
    with assms(3) show False by linarith
  qed
  have "\<bar>1 / v - 1\<bar> = \<bar>v - 1\<bar> * (1 / v)"
    using pos by (simp add: field_simps abs_minus_commute)
  also have "\<dots> \<le> eps * (1 / v)"
    using assms(1) ipos by (intro mult_right_mono) simp_all
  also have "\<dots> \<le> eps * 2"
    using inv assms(1) by (intro mult_left_mono) linarith+
  finally have near: "\<bar>1 / v - 1\<bar> \<le> 2 * eps" by simp
  have "rnd * \<bar>1 / v\<bar> \<le> rnd * 2"
    using inv ipos rnd by (intro mult_left_mono) simp_all
  with assms(3) have round: "\<bar>q - 1 / v\<bar> \<le> 2 * rnd" by linarith
  have "q - 1 = (q - 1 / v) + (1 / v - 1)" by simp
  then have "\<bar>q - 1\<bar> \<le> \<bar>q - 1 / v\<bar> + \<bar>1 / v - 1\<bar>"
    by (simp only: abs_triangle_ineq)
  with near round show ?thesis by simp
qed

text \<open>
  C6: the table of the scenario has three points of flux 1. Let it be loaded and detrended
  with order 0, where the fit returns a constant within \<open>eps\<close> of 1, with \<open>eps\<close> at most
  1/2, the polynomial of that one coefficient evaluates to the coefficient, and the
  division rounds with a relative error of at most \<open>rnd\<close>. Then detrending succeeds, sets
  \<open>cleaned\<close>, and every flux is within \<open>2 * (eps + rnd)\<close> of 1, the flux loaded. Here \<open>val\<close>
  gives the real number a number of an array stands for; the times, uncertainties and
  flags of the table are any.
\<close>

theorem flat_scenario:
  fixes np :: "'a::inverse numpy" and val :: "'a \<Rightarrow> real"
  assumes "loadtxt np path = Inr (squeeze [[t0, t1, t2], [f0, f1, f2], [u0, u1, u2], [g0, g1, g2]])"
    and "map val [f0, f1, f2] = [1, 1, 1]"
    and "polyfit np [t0, t1, t2] [f0, f1, f2] 0 = Inr [c]"
    and "\<bar>val c - 1\<bar> \<le> eps" and "eps \<le> 1/2"
    and "\<forall>t \<in> set [t0, t1, t2]. polyval np [c] t = c"
    and "\<forall>f \<in> set [f0, f1, f2]. \<bar>val (f / c) - val f / val c\<bar> \<le> rnd * \<bar>val f / val c\<bar>"
  shows "case from_txt np path h of
           (Inr lc, h1) \<Rightarrow>
              (case clean np lc 0 h1 of
                 (Inr r, lc', h2) \<Rightarrow>
                    cleaned lc' \<and>
                    length (arrays h2 (fluxes lc')) = 3 \<and>
                    (\<forall>i<3. \<bar>val (arrays h2 (fluxes lc') ! i) - 1\<bar> \<le> 2 * (eps + rnd)) \<and>
                    (\<forall>i<3. \<bar>val (arrays h2 (fluxes lc') ! i) - val (arrays h1 (fluxes lc) ! i)\<bar>
                              \<le> 2 * (eps + rnd))
               | (Inl e, lc', h2) \<Rightarrow> False)
         | (Inl e, h1) \<Rightarrow> False"
proof -
  have near: "\<bar>val (f / c) - 1\<bar> \<le> 2 * (eps + rnd)" if "f \<in> set [f0, f1, f2]" for f
  proof -
    from that assms(2) have one: "val f = 1" by auto
    from that assms(7) have "\<bar>val (f / c) - val f / val c\<bar> \<le> rnd * \<bar>val f / val c\<bar>"
      by blast
    with one have "\<bar>val (f / c) - 1 / val c\<bar> \<le> rnd * \<bar>1 / val c\<bar>" by simp
    with assms(4,5) show ?thesis by (rule quotient_near_one)
  qed
  have vals: "val f0 = 1" "val f1 = 1" "val f2 = 1"
    using assms(2) by simp_all
  have l: "loadtxt np path = Inr (Arr2 [[t0, t1, t2], [f0, f1, f2], [u0, u1, u2], [g0, g1, g2]])"
    using assms(1) by simp
  have run: "clean np (LightCurve_init (next_ref h) (next_ref h + 1) (next_ref h + 2)
        (next_ref h + 3) None) 0 (snd (from_txt np path h)) =
     (Inr (),
      (LightCurve_init (next_ref h) (next_ref h + 1) (next_ref h + 2) (next_ref h + 3) None)
        \<lparr>cleaned := True\<rparr>,
      (snd (from_txt np path h))
        \<lparr>arrays := (arrays (snd (from_txt np path h)))
           (next_ref h + 1 := [f0 / c, f1 / c, f2 / c],
            next_ref h + 2 := [u0 / c, u1 / c, u2 / c])\<rparr>)"
    using assms(3,6)
    by (simp add: from_txt_rows [OF l] clean_def LightCurve_init_def itruediv_def)
  have n0: "\<bar>val (f0 / c) - 1\<bar> \<le> 2 * (eps + rnd)"
    and n1: "\<bar>val (f1 / c) - 1\<bar> \<le> 2 * (eps + rnd)"
    and n2: "\<bar>val (f2 / c) - 1\<bar> \<le> 2 * (eps + rnd)"
    by (rule near, simp)+
  have "\<bar>val ([f0 / c, f1 / c, f2 / c] ! i) - 1\<bar> \<le> 2 * (eps + rnd)" if "i < 3" for i
  proof -
    from that consider "i = 0" | "i = 1" | "i = 2" by linarith
    then show ?thesis using n0 n1 n2 by cases simp_all
  qed
  moreover have "\<bar>val ([f0 / c, f1 / c, f2 / c] ! i) - val ([f0, f1, f2] ! i)\<bar>
      \<le> 2 * (eps + rnd)" if "i < 3" for i
  proof -
    from that consider "i = 0" | "i = 1" | "i = 2" by linarith
    then show ?thesis using n0 n1 n2 vals by cases simp_all
  qed
  ultimately show ?thesis
    using run
    by (simp add: from_txt_rows [OF l] LightCurve_init_def)
qed

theorem flat_scenario_witness:
  "loadtxt (np_example flat_table (Inr [1 + 1 / 2 ^ 52])) ''lc_0.txt'' =
     Inr (squeeze [[0, 1, 2], [1, 1, 1], [1/10, 1/10, 1/10], [0, 0, 0]]) \<and>
   polyfit (np_example flat_table (Inr [1 + 1 / 2 ^ 52])) [0, 1, 2] [1, 1, 1] 0 =
     Inr [1 + 1 / 2 ^ 52] \<and>
   \<bar>(1 + 1 / 2 ^ 52) - 1 :: real\<bar> \<le> 1 / 2 ^ 52 \<and>
   (case from_txt (np_example flat_table (Inr [1 + 1 / 2 ^ 52])) ''lc_0.txt'' empty_heap of
      (Inr lc, h1) \<Rightarrow>
         (case clean (np_example flat_table (Inr [1 + 1 / 2 ^ 52])) lc 0 h1 of
            (Inr r, lc', h2) \<Rightarrow>
               cleaned lc' \<and>
               \<bar>arrays h2 (fluxes lc') ! 0 - 1\<bar> \<le> 2 * (1 / 2 ^ 52 + 1 / 2 ^ 53) \<and>
               \<bar>arrays h2 (fluxes lc') ! 1 - 1\<bar> \<le> 2 * (1 / 2 ^ 52 + 1 / 2 ^ 53) \<and>
               \<bar>arrays h2 (fluxes lc') ! 2 - 1\<bar> \<le> 2 * (1 / 2 ^ 52 + 1 / 2 ^ 53)
          | (Inl e, lc', h2) \<Rightarrow> False)
    | (Inl e, h1) \<Rightarrow> False)"
proof -
  let ?c = "1 + 1 / 2 ^ 52 :: real"
  let ?np = "np_example flat_table (Inr [?c])"
  have l: "loadtxt ?np ''lc_0.txt'' =
     Inr (squeeze [[0, 1, 2], [1, 1, 1], [1/10, 1/10, 1/10], [0, 0, 0]])"
    by (simp add: np_example_def flat_table_def)
  have v: "map (\<lambda>x. x) [1, 1, 1 :: real] = [1, 1, 1]" by simp
  have f: "polyfit ?np [0, 1, 2] [1, 1, 1] 0 = Inr [?c]"
    by (simp add: np_example_def)
  have e: "\<bar>?c - 1\<bar> \<le> 1 / 2 ^ 52" by simp
  have e': "1 / 2 ^ 52 \<le> (1/2 :: real)" by simp
  have pv: "\<forall>t \<in> set [0, 1, 2]. polyval ?np [?c] t = ?c"
    by (simp add: np_example_def horner_def)
  have dv: "\<forall>f \<in> set [1, 1, 1 :: real].
      \<bar>f / ?c - f / ?c\<bar> \<le> 1 / 2 ^ 53 * \<bar>f / ?c\<bar>"
    by simp
  note run = flat_scenario [where val = "\<lambda>x. x" and h = empty_heap, OF l v f e e' pv dv]
  have three: "\<And>P. (\<forall>i<3. P (i::nat)) = (P 0 \<and> P 1 \<and> P 2)"
    by (auto simp: numeral_3_eq_3 numeral_2_eq_2 less_Suc_eq)
  from l f e run [unfolded three] show ?thesis
    by (auto split: prod.splits sum.splits)
qed

text \<open>
  C7: a LightCurve whose four sequences all have length \<open>N\<close> keeps this property through
  detrending, whatever its outcome; a LightCurve loaded from a table of \<open>N\<close> columns has
  it; and loading leaves it to every LightCurve that has it already.
\<close>

theorem same_length_invariant:
  "(length (arrays h (times_lc lc)) = N \<and> length (arrays h (fluxes lc)) = N \<and>
    length (arrays h (uncertainties lc)) = N \<and> length (arrays h (flags lc)) = N \<longrightarrow>
      (case clean np lc order h of
         (res, lc', h') \<Rightarrow>
            length (arrays h' (times_lc lc')) = N \<and> length (arrays h' (fluxes lc')) = N \<and>
            length (arrays h' (uncertainties lc')) = N \<and> length (arrays h' (flags lc')) = N)) \<and>
   (loadtxt np path = Inr (Arr2 rows) \<and> (\<forall>r \<in> set rows. length r = N) \<longrightarrow>
      (case from_txt np path h of
         (Inr lc', h') \<Rightarrow>
            length (arrays h' (times_lc lc')) = N \<and> length (arrays h' (fluxes lc')) = N \<and>
            length (arrays h' (uncertainties lc')) = N \<and> length (arrays h' (flags lc')) = N
       | (Inl e, h') \<Rightarrow> True)) \<and>
   (times_lc lc < next_ref h \<and> fluxes lc < next_ref h \<and>
    uncertainties lc < next_ref h \<and> flags lc < next_ref h \<and>
    length (arrays h (times_lc lc)) = N \<and> length (arrays h (fluxes lc)) = N \<and>
    length (arrays h (uncertainties lc)) = N \<and> length (arrays h (flags lc)) = N \<longrightarrow>
      (case from_txt np path h of
         (res, h') \<Rightarrow>
            length (arrays h' (times_lc lc)) = N \<and> length (arrays h' (fluxes lc)) = N \<and>
            length (arrays h' (uncertainties lc)) = N \<and> length (arrays h' (flags lc)) = N))"
proof (intro conjI impI)
  assume inv: "length (arrays h (times_lc lc)) = N \<and> length (arrays h (fluxes lc)) = N \<and>
    length (arrays h (uncertainties lc)) = N \<and> length (arrays h (flags lc)) = N"
  obtain res lc' h' where c: "clean np lc order h = (res, lc', h')"
    by (cases "clean np lc order h") auto
  from inv show "case clean np lc order h of
         (res, lc', h') \<Rightarrow>
            length (arrays h' (times_lc lc')) = N \<and> length (arrays h' (fluxes lc')) = N \<and>
            length (arrays h' (uncertainties lc')) = N \<and> length (arrays h' (flags lc')) = N"
    by (simp add: c clean_attributes [OF c] clean_array_length [OF c])
next
  assume t: "loadtxt np path = Inr (Arr2 rows) \<and> (\<forall>r \<in> set rows. length r = N)"
  show "case from_txt np path h of
         (Inr lc', h') \<Rightarrow>
            length (arrays h' (times_lc lc')) = N \<and> length (arrays h' (fluxes lc')) = N \<and>
            length (arrays h' (uncertainties lc')) = N \<and> length (arrays h' (flags lc')) = N
       | (Inl e, h') \<Rightarrow> True"
  proof (cases "4 \<le> length rows")
    case True
    then obtain r0 r1 r2 r3 rest where "rows = r0 # r1 # r2 # r3 # rest"
      by (rule at_least_four)
    with t show ?thesis
      by (simp add: from_txt_rows LightCurve_init_def)
  next
    case False
    with t show ?thesis
      by (simp add: from_txt_few_rows)
  qed
next
  assume old: "times_lc lc < next_ref h \<and> fluxes lc < next_ref h \<and>
    uncertainties lc < next_ref h \<and> flags lc < next_ref h \<and>
    length (arrays h (times_lc lc)) = N \<and> length (arrays h (fluxes lc)) = N \<and>
    length (arrays h (uncertainties lc)) = N \<and> length (arrays h (flags lc)) = N"
  obtain res h' where f: "from_txt np path h = (res, h')"
    by (cases "from_txt np path h") auto
  from old show "case from_txt np path h of
         (res, h') \<Rightarrow>
            length (arrays h' (times_lc lc)) = N \<and> length (arrays h' (fluxes lc)) = N \<and>
            length (arrays h' (uncertainties lc)) = N \<and> length (arrays h' (flags lc)) = N"
    by (simp add: f from_txt_old_arrays [OF f])
qed

theorem same_length_invariant_witness:
  "length (arrays flat_heap (times_lc prox_cen)) = 3 \<and>
   length (arrays flat_heap (fluxes prox_cen)) = 3 \<and>
   length (arrays flat_heap (uncertainties prox_cen)) = 3 \<and>
   length (arrays flat_heap (flags prox_cen)) = 3 \<and>
   times_lc prox_cen < next_ref flat_heap \<and> fluxes prox_cen < next_ref flat_heap \<and>
   uncertainties prox_cen < next_ref flat_heap \<and> flags prox_cen < next_ref flat_heap \<and>
   loadtxt (np_example flat_table (Inr [1])) ''lc_0.txt'' =
     Inr (Arr2 [[0, 1, 2], [1, 1, 1], [1/10, 1/10, 1/10], [0, 0, 0]]) \<and>
   (case clean (np_example flat_table (Inr [1])) prox_cen 0 flat_heap of
      (res, lc', h') \<Rightarrow>
         length (arrays h' (times_lc lc')) = 3 \<and> length (arrays h' (fluxes lc')) = 3 \<and>
         length (arrays h' (uncertainties lc')) = 3 \<and> length (arrays h' (flags lc')) = 3) \<and>
   (case from_txt (np_example flat_table (Inr [1])) ''lc_0.txt'' flat_heap of
      (Inr lc', h') \<Rightarrow>
         length (arrays h' (times_lc lc')) = 3 \<and> length (arrays h' (fluxes lc')) = 3 \<and>
         length (arrays h' (uncertainties lc')) = 3 \<and> length (arrays h' (flags lc')) = 3 \<and>
         length (arrays h' (times_lc prox_cen)) = 3 \<and> length (arrays h' (fluxes prox_cen)) = 3 \<and>
         length (arrays h' (uncertainties prox_cen)) = 3 \<and>
         length (arrays h' (flags prox_cen)) = 3
    | (Inl e, h') \<Rightarrow> False)"
proof -
  have a: "length (arrays flat_heap (times_lc prox_cen)) = 3 \<and>
    length (arrays flat_heap (fluxes prox_cen)) = 3 \<and>
    length (arrays flat_heap (uncertainties prox_cen)) = 3 \<and>
    length (arrays flat_heap (flags prox_cen)) = 3"
    by (simp add: flat_heap_def prox_cen_def LightCurve_init_def)
  have b: "times_lc prox_cen < next_ref flat_heap \<and> fluxes prox_cen < next_ref flat_heap \<and>
    uncertainties prox_cen < next_ref flat_heap \<and> flags prox_cen < next_ref flat_heap"
    by (simp add: flat_heap_def prox_cen_def LightCurve_init_def)
  have l: "loadtxt (np_example flat_table (Inr [1])) ''lc_0.txt'' =
     Inr (Arr2 [[0, 1, 2], [1, 1, 1], [1/10, 1/10, 1/10], [0, 0, 0]])"
    by (simp add: np_example_def flat_table_def)
  have n: "\<forall>r \<in> set [[0, 1, 2], [1, 1, 1], [1/10, 1/10, 1/10], [0, 0, 0::real]]. length r = 3"
    by simp
  have ok: "fst (from_txt (np_example flat_table (Inr [1])) ''lc_0.txt'' flat_heap) =
      Inr (LightCurve_init 4 5 6 7 None)"
    by (simp add: from_txt_rows [OF l] flat_heap_def)
  show ?thesis
    using a b l n ok
      same_length_invariant [where h = flat_heap and lc = prox_cen and N = 3
        and np = "np_example flat_table (Inr [1])" and order = 0 and path = "''lc_0.txt''"
        and rows = "[[0, 1, 2], [1, 1, 1], [1/10, 1/10, 1/10], [0, 0, 0]]"]
    by (auto split: prod.splits sum.splits)
qed


text \<open>
  C8, as the code has it: on a record whose times and flags are arrays other than its
  fluxes and uncertainties, detrending, whatever its outcome, changes only the arrays of
  fluxes and uncertainties and the attribute \<open>cleaned\<close>: every attribute keeps its
  reference, the name is kept, and the arrays of times and flags, as every other array,
  hold what they held. Loading changes no array that exists already, and plotting changes
  neither the record nor any array. (The initialiser builds a new record and has no access
  to another.)
\<close>

theorem clean_frame:
  "(times_lc lc \<notin> {fluxes lc, uncertainties lc} \<and> flags lc \<notin> {fluxes lc, uncertainties lc} \<longrightarrow>
      (case clean np lc order h of
         (res, lc', h') \<Rightarrow>
            times_lc lc' = times_lc lc \<and> fluxes lc' = fluxes lc \<and>
            uncertainties lc' = uncertainties lc \<and> flags lc' = flags lc \<and>
            name lc' = name lc \<and>
            arrays h' (times_lc lc') = arrays h (times_lc lc) \<and>
            arrays h' (flags lc') = arrays h (flags lc) \<and>
            (\<forall>r. r \<noteq> fluxes lc \<and> r \<noteq> uncertainties lc \<longrightarrow> arrays h' r = arrays h r) \<and>
            next_ref h' = next_ref h)) \<and>
   (case from_txt np path h of
      (res, h') \<Rightarrow> \<forall>r < next_ref h. arrays h' r = arrays h r) \<and>
   (case plot lc h of (calls, lc', h') \<Rightarrow> lc' = lc \<and> h' = h)"
proof (intro conjI impI)
  assume d: "times_lc lc \<notin> {fluxes lc, uncertainties lc} \<and>
    flags lc \<notin> {fluxes lc, uncertainties lc}"
  obtain res lc' h' where c: "clean np lc order h = (res, lc', h')"
    by (cases "clean np lc order h") auto
  from d show "case clean np lc order h of
         (res, lc', h') \<Rightarrow>
            times_lc lc' = times_lc lc \<and> fluxes lc' = fluxes lc \<and>
            uncertainties lc' = uncertainties lc \<and> flags lc' = flags lc \<and>
            name lc' = name lc \<and>
            arrays h' (times_lc lc') = arrays h (times_lc lc) \<and>
            arrays h' (flags lc') = arrays h (flags lc) \<and>
            (\<forall>r. r \<noteq> fluxes lc \<and> r \<noteq> uncertainties lc \<longrightarrow> arrays h' r = arrays h r) \<and>
            next_ref h' = next_ref h"
    by (simp add: c clean_attributes [OF c] clean_other_arrays [OF c] clean_next_ref [OF c])
next
  obtain res h' where f: "from_txt np path h = (res, h')"
    by (cases "from_txt np path h") auto
  show "case from_txt np path h of
      (res, h') \<Rightarrow> \<forall>r < next_ref h. arrays h' r = arrays h r"
    by (simp add: f from_txt_old_arrays [OF f])
next
  show "case plot lc h of (calls, lc', h') \<Rightarrow> lc' = lc \<and> h' = h"
    by (simp add: plot_def)
qed

theorem clean_frame_witness:
  "times_lc prox_cen \<notin> {fluxes prox_cen, uncertainties prox_cen} \<and>
   flags prox_cen \<notin> {fluxes prox_cen, uncertainties prox_cen} \<and>
   (case clean (np_example flat_table (Inr [1])) prox_cen 0 flat_heap of
      (res, lc', h') \<Rightarrow>
         res = Inr () \<and> name lc' = Some ''proxima Centauri'' \<and>
         arrays h' (times_lc lc') = [0, 1, 2] \<and> arrays h' (flags lc') = [0, 0, 0]) \<and>
   (case from_txt (np_example flat_table (Inr [1])) ''lc_0.txt'' flat_heap of
      (res, h') \<Rightarrow> arrays h' 1 = [1, 1, 1]) \<and>
   (case plot prox_cen flat_heap of (calls, lc', h') \<Rightarrow> lc' = prox_cen \<and> h' = flat_heap)"
proof -
  have d: "times_lc prox_cen \<notin> {fluxes prox_cen, uncertainties prox_cen} \<and>
    flags prox_cen \<notin> {fluxes prox_cen, uncertainties prox_cen}"
    by (simp add: prox_cen_def LightCurve_init_def)
  have a: "arrays flat_heap (times_lc prox_cen) = [0, 1, 2]"
    "arrays flat_heap (flags prox_cen) = [0, 0, 0]" "arrays flat_heap 1 = [1, 1, 1]"
    "name prox_cen = Some ''proxima Centauri''" "1 < next_ref flat_heap"
    by (simp_all add: flat_heap_def prox_cen_def LightCurve_init_def)
  have r: "fst (clean (np_example flat_table (Inr [1])) prox_cen 0 flat_heap) = Inr ()"
    by (simp add: clean_def np_example_def prox_cen_def flat_heap_def LightCurve_init_def
        itruediv_def)
  show ?thesis
    using d a r
      clean_frame [where lc = prox_cen and np = "np_example flat_table (Inr [1])" and order = 0
        and h = flat_heap and path = "''lc_0.txt''"]
    by (auto split: prod.splits)
qed

text \<open>
  C8 as stated fails on a record whose times and fluxes are one array: dividing the fluxes
  divides the times. The array holds 2, 2, the fit of order 0 is 2, and the times become
  1, 1.
\<close>

theorem clean_frame_counterexample:
  "times_lc shared_time_flux = 1 \<and> fluxes shared_time_flux = 1 \<and>
   arrays const_heap 1 = [2, 2] \<and>
   least_squares [2, 2] [2, 2] 0 [2] \<and>
   clean (np_example flat_table (Inr [2])) shared_time_flux 0 const_heap =
     (Inr (), shared_time_flux\<lparr>cleaned := True\<rparr>,
      const_heap\<lparr>arrays := (arrays const_heap)(1 := [1, 1], 2 := [1/20, 1/20])\<rparr>) \<and>
   arrays (const_heap\<lparr>arrays := (arrays const_heap)(1 := [1, 1], 2 := [1/20, 1/20])\<rparr>)
     (times_lc shared_time_flux) = [1, 1]"
proof -
  have "least_squares [2, 2] [2, 2] 0 [2]"
    by (rule least_squares_exact) (simp_all add: residual_def horner_def)
  moreover have "clean (np_example flat_table (Inr [2])) shared_time_flux 0 const_heap =
    (Inr (), shared_time_flux\<lparr>cleaned := True\<rparr>,
     const_heap\<lparr>arrays := (arrays const_heap)(1 := [1, 1], 2 := [1/20, 1/20])\<rparr>)"
    by (simp add: clean_def np_example_def shared_time_flux_def const_heap_def
        LightCurve_init_def itruediv_def horner_def)
  ultimately show ?thesis
    by (simp add: shared_time_flux_def const_heap_def LightCurve_init_def)
qed

text \<open>
  The two regression lines used below are least-squares fits: the residual of any line
  exceeds theirs by a sum of squares.
\<close>

lemma least_squares_bent: "least_squares [0, 1, 2] [2, 0, 4] 1 [1, 1]"
  unfolding least_squares_def
proof (intro conjI allI impI)
  show "int (length [1, 1 :: real]) = 1 + 1" by simp
next
  fix q :: "real list"
  assume "length q = length [1, 1 :: real]"
  then obtain a b where q: "q = [a, b]"
    by (cases q; cases "tl q") auto
  have "residual q [0, 1, 2] [2, 0, 4] - residual [1, 1] [0, 1, 2] [2, 0, 4] =
      (b - 1)\<^sup>2 + (a + b - 2)\<^sup>2 + (2 * a + b - 3)\<^sup>2"
    by (simp add: q residual_def horner_def power2_eq_square algebra_simps)
  moreover have "0 \<le> (b - 1)\<^sup>2 + (a + b - 2)\<^sup>2 + (2 * a + b - 3)\<^sup>2"
    by simp
  ultimately show "residual [1, 1] [0, 1, 2] [2, 0, 4] \<le> residual q [0, 1, 2] [2, 0, 4]"
    by linarith
qed

lemma least_squares_bent_again: "least_squares [0, 1, 2] [2, 0, 4/3] 1 [- 1/3, 13/9]"
  unfolding least_squares_def
proof (intro conjI allI impI)
  show "int (length [- 1/3, 13/9 :: real]) = 1 + 1" by simp
next
  fix q :: "real list"
  assume "length q = length [- 1/3, 13/9 :: real]"
  then obtain a b where q: "q = [a, b]"
    by (cases q; cases "tl q") auto
  have "residual q [0, 1, 2] [2, 0, 4/3] - residual [- 1/3, 13/9] [0, 1, 2] [2, 0, 4/3] =
      (b - 13/9)\<^sup>2 + (a + b - 10/9)\<^sup>2 + (2 * a + b - 7/9)\<^sup>2"
    by (simp add: q residual_def horner_def power2_eq_square algebra_simps)
  moreover have "0 \<le> (b - 13/9)\<^sup>2 + (a + b - 10/9)\<^sup>2 + (2 * a + b - 7/9)\<^sup>2"
    by simp
  ultimately show
    "residual [- 1/3, 13/9] [0, 1, 2] [2, 0, 4/3] \<le> residual q [0, 1, 2] [2, 0, 4/3]"
    by linarith
qed

text \<open>
  C9, as the code has it: detrending does not look at \<open>cleaned\<close>. On a record with \<open>N\<close>
  points whose times, fluxes and uncertainties are three arrays, the last two of floats,
  a second application with the same order, where both fits succeed, fits the fluxes left
  by the first and divides the fluxes and the uncertainties left by the first by this
  second model. The fluxes are as before it exactly when that division leaves every one of
  them as it is.
\<close>

theorem clean_twice:
  assumes "times_lc lc \<notin> {fluxes lc, uncertainties lc}" and "fluxes lc \<noteq> uncertainties lc"
    and "dtypes h (fluxes lc) = Float64" and "dtypes h (uncertainties lc) = Float64"
    and "length (arrays h (times_lc lc)) = N"
    and "length (arrays h (fluxes lc)) = N"
    and "length (arrays h (uncertainties lc)) = N"
    and "polyfit np (arrays h (times_lc lc)) (arrays h (fluxes lc)) order = Inr p1"
    and "polyfit np (arrays h (times_lc lc))
           (map2 (/) (arrays h (fluxes lc)) (map (polyval np p1) (arrays h (times_lc lc))))
           order = Inr p2"
  shows "case clean np lc order h of
           (Inr u1, lc1, h1) \<Rightarrow>
              (case clean np lc1 order h1 of
                 (Inr u2, lc2, h2) \<Rightarrow>
                    cleaned lc1 \<and> cleaned lc2 \<and>
                    arrays h2 (fluxes lc2) =
                      map2 (/) (arrays h1 (fluxes lc1))
                        (map (polyval np p2) (arrays h (times_lc lc))) \<and>
                    arrays h2 (uncertainties lc2) =
                      map2 (/) (arrays h1 (uncertainties lc1))
                        (map (polyval np p2) (arrays h (times_lc lc))) \<and>
                    (arrays h2 (fluxes lc2) = arrays h1 (fluxes lc1) \<longleftrightarrow>
                       (\<forall>i<N. arrays h1 (fluxes lc1) ! i /
                                 polyval np p2 (arrays h (times_lc lc) ! i) =
                               arrays h1 (fluxes lc1) ! i))
               | (Inl e, lc2, h2) \<Rightarrow> False)
         | (Inl e, lc1, h1) \<Rightarrow> False"
proof -
  let ?ts = "arrays h (times_lc lc)"
  let ?m1 = "map (polyval np p1) ?ts"
  let ?m2 = "map (polyval np p2) ?ts"
  let ?f1 = "map2 (/) (arrays h (fluxes lc)) ?m1"
  let ?u1 = "map2 (/) (arrays h (uncertainties lc)) ?m1"
  let ?lc1 = "lc\<lparr>cleaned := True\<rparr>"
  let ?h1 = "h\<lparr>arrays := (arrays h)(fluxes lc := ?f1, uncertainties lc := ?u1)\<rparr>"
  have first: "clean np lc order h = (Inr (), ?lc1, ?h1)"
    using assms(2-8) by (intro clean_success) simp_all
  have t: "arrays ?h1 (times_lc ?lc1) = ?ts"
    and f: "arrays ?h1 (fluxes ?lc1) = ?f1"
    and u: "arrays ?h1 (uncertainties ?lc1) = ?u1"
    using assms(1,2) by auto
  have second: "clean np ?lc1 order ?h1 =
     (Inr (), ?lc1\<lparr>cleaned := True\<rparr>,
      ?h1\<lparr>arrays := (arrays ?h1)
         (fluxes ?lc1 := map2 (/) (arrays ?h1 (fluxes ?lc1))
                          (map (polyval np p2) (arrays ?h1 (times_lc ?lc1))),
          uncertainties ?lc1 := map2 (/) (arrays ?h1 (uncertainties ?lc1))
                          (map (polyval np p2) (arrays ?h1 (times_lc ?lc1))))\<rparr>)"
  proof (rule clean_success)
    show "polyfit np (arrays ?h1 (times_lc ?lc1)) (arrays ?h1 (fluxes ?lc1)) order = Inr p2"
      unfolding t f by (rule assms(9))
    show "length (arrays ?h1 (fluxes ?lc1)) = length (arrays ?h1 (times_lc ?lc1))"
      unfolding t f using assms(5,6) by simp
    show "length (arrays ?h1 (uncertainties ?lc1)) = length (arrays ?h1 (times_lc ?lc1))"
      unfolding t u using assms(5,7) by simp
    show "fluxes ?lc1 \<noteq> uncertainties ?lc1"
      using assms(2) by simp
    show "dtypes ?h1 (fluxes ?lc1) = Float64" "dtypes ?h1 (uncertainties ?lc1) = Float64"
      using assms(3,4) by simp_all
  qed
  have len: "length ?f1 = N" "length ?m2 = N" "length ?ts = N"
    using assms(5,6) by simp_all
  have same: "map2 (/) ?f1 ?m2 = ?f1 \<longleftrightarrow>
      (\<forall>i<N. ?f1 ! i / polyval np p2 (?ts ! i) = ?f1 ! i)"
    using len by (simp add: list_eq_iff_nth_eq)
  show ?thesis
    unfolding first
    using second t f u same assms(2) by simp
qed

theorem clean_twice_witness:
  "times_lc bent \<notin> {fluxes bent, uncertainties bent} \<and>
   fluxes bent \<noteq> uncertainties bent \<and>
   dtypes bent_heap (fluxes bent) = Float64 \<and> dtypes bent_heap (uncertainties bent) = Float64 \<and>
   arrays bent_heap (times_lc bent) = [0, 1, 2] \<and>
   arrays bent_heap (fluxes bent) = [2, 0, 4] \<and>
   arrays bent_heap (uncertainties bent) = [1, 1, 1] \<and>
   polyfit (np_fit_by fit_line) [0, 1, 2] [2, 0, 4] 1 = Inr [1, 1] \<and>
   least_squares [0, 1, 2] [2, 0, 4] 1 [1, 1] \<and>
   polyfit (np_fit_by fit_line) [0, 1, 2] [2, 0, 4/3] 1 = Inr [- 1/3, 13/9] \<and>
   least_squares [0, 1, 2] [2, 0, 4/3] 1 [- 1/3, 13/9] \<and>
   (case clean (np_fit_by fit_line) bent 1 bent_heap of
      (Inr u1, lc1, h1) \<Rightarrow>
         (case clean (np_fit_by fit_line) lc1 1 h1 of
            (Inr u2, lc2, h2) \<Rightarrow>
               cleaned lc1 \<and> cleaned lc2 \<and>
               arrays h1 (fluxes lc1) = [2, 0, 4/3] \<and>
               arrays h1 (uncertainties lc1) = [1, 1/2, 1/3] \<and>
               arrays h2 (fluxes lc2) = [18/13, 0, 12/7] \<and>
               arrays h2 (uncertainties lc2) = [9/13, 9/20, 3/7]
          | (Inl e, lc2, h2) \<Rightarrow> False)
    | (Inl e, lc1, h1) \<Rightarrow> False)"
proof -
  let ?np = "np_fit_by fit_line"
  have d: "times_lc bent \<notin> {fluxes bent, uncertainties bent}"
    and d': "fluxes bent \<noteq> uncertainties bent"
    by (simp_all add: bent_def LightCurve_init_def)
  have k: "dtypes bent_heap (fluxes bent) = Float64"
    and k': "dtypes bent_heap (uncertainties bent) = Float64"
    by (simp_all add: bent_heap_def)
  have a: "arrays bent_heap (times_lc bent) = [0, 1, 2]"
    "arrays bent_heap (fluxes bent) = [2, 0, 4]"
    "arrays bent_heap (uncertainties bent) = [1, 1, 1]"
    by (simp_all add: bent_heap_def bent_def LightCurve_init_def)
  have t: "length (arrays bent_heap (times_lc bent)) = 3"
    and f: "length (arrays bent_heap (fluxes bent)) = 3"
    and u: "length (arrays bent_heap (uncertainties bent)) = 3"
    by (simp_all add: a)
  have q1: "polyfit ?np [0, 1, 2] [2, 0, 4] 1 = Inr [1, 1]"
    by (simp add: np_fit_by_def fit_line_def)
  have m1: "map (polyval ?np [1, 1]) [0, 1, 2] = [1, 2, 3]"
    by (simp add: np_fit_by_def horner_def)
  have q2: "polyfit ?np [0, 1, 2] [2, 0, 4/3] 1 = Inr [- 1/3, 13/9]"
    by (simp add: np_fit_by_def fit_line_def)
  have m2: "map (polyval ?np [- 1/3, 13/9]) [0, 1, 2] = [13/9, 10/9, 7/9]"
    by (simp add: np_fit_by_def horner_def)
  have p1: "polyfit ?np (arrays bent_heap (times_lc bent)) (arrays bent_heap (fluxes bent)) 1 =
      Inr [1, 1]"
    by (simp add: a q1)
  have p2: "polyfit ?np (arrays bent_heap (times_lc bent))
      (map2 (/) (arrays bent_heap (fluxes bent))
         (map (polyval ?np [1, 1]) (arrays bent_heap (times_lc bent)))) 1 =
      Inr [- 1/3, 13/9]"
    unfolding a m1 using q2 by simp
  have first: "clean ?np bent 1 bent_heap =
      (Inr (), bent\<lparr>cleaned := True\<rparr>,
       bent_heap\<lparr>arrays := (arrays bent_heap)(1 := [2, 0, 4/3], 2 := [1, 1/2, 1/3])\<rparr>)"
    by (simp add: clean_def np_fit_by_def fit_line_def bent_def bent_heap_def
        LightCurve_init_def itruediv_def horner_def)
  have second: "clean ?np (bent\<lparr>cleaned := True\<rparr>) 1
        (bent_heap\<lparr>arrays := (arrays bent_heap)(1 := [2, 0, 4/3], 2 := [1, 1/2, 1/3])\<rparr>) =
      (Inr (), bent\<lparr>cleaned := True\<rparr>,
       bent_heap\<lparr>arrays := (arrays bent_heap)
          (1 := [18/13, 0, 12/7], 2 := [9/13, 9/20, 3/7])\<rparr>)"
    by (simp add: clean_def np_fit_by_def fit_line_def bent_def bent_heap_def
        LightCurve_init_def itruediv_def horner_def Let_def fun_eq_iff)
  note run = clean_twice [OF d d' k k' t f u p1 p2]
  have fl: "fluxes bent = 1" and un: "uncertainties bent = 2"
    by (simp_all add: bent_def LightCurve_init_def)
  from d d' k k' a q1 q2 least_squares_bent least_squares_bent_again run show ?thesis
    by (simp add: first second fl un del: One_nat_def)
qed

text \<open>
  C9 as stated fails on a record of a single point detrended with order 0: the fit to
  the flux 2 is 2 and the first application leaves the flux 1; the fit to the flux 1 is 1,
  and the second application returns the record and every array as the first left them.
\<close>

theorem clean_twice_counterexample:
  "arrays one_point_heap 0 = [1] \<and> arrays one_point_heap 1 = [2] \<and>
   arrays one_point_heap 2 = [1/10] \<and>
   fit_mean [1] [2] 0 = Inr [2] \<and> least_squares [1] [2] 0 [2] \<and>
   clean (np_fit_by fit_mean) one_point 0 one_point_heap =
     (Inr (), one_point\<lparr>cleaned := True\<rparr>,
      one_point_heap\<lparr>arrays := (arrays one_point_heap)(1 := [1], 2 := [1/20])\<rparr>) \<and>
   fit_mean [1] [1] 0 = Inr [1] \<and> least_squares [1] [1] 0 [1] \<and>
   clean (np_fit_by fit_mean) (one_point\<lparr>cleaned := True\<rparr>) 0
       (one_point_heap\<lparr>arrays := (arrays one_point_heap)(1 := [1], 2 := [1/20])\<rparr>) =
     (Inr (), one_point\<lparr>cleaned := True\<rparr>,
      one_point_heap\<lparr>arrays := (arrays one_point_heap)(1 := [1], 2 := [1/20])\<rparr>)"
proof -
  have "least_squares [1] [2] 0 [2]" "least_squares [1] [1] 0 [1]"
    by (rule least_squares_exact, simp_all add: residual_def horner_def)+
  moreover have "clean (np_fit_by fit_mean) one_point 0 one_point_heap =
     (Inr (), one_point\<lparr>cleaned := True\<rparr>,
      one_point_heap\<lparr>arrays := (arrays one_point_heap)(1 := [1], 2 := [1/20])\<rparr>)"
    by (simp add: clean_def np_fit_by_def fit_mean_def one_point_def one_point_heap_def
        LightCurve_init_def itruediv_def horner_def)
  moreover have "clean (np_fit_by fit_mean) (one_point\<lparr>cleaned := True\<rparr>) 0
       (one_point_heap\<lparr>arrays := (arrays one_point_heap)(1 := [1], 2 := [1/20])\<rparr>) =
     (Inr (), one_point\<lparr>cleaned := True\<rparr>,
      one_point_heap\<lparr>arrays := (arrays one_point_heap)(1 := [1], 2 := [1/20])\<rparr>)"
    by (simp add: clean_def np_fit_by_def fit_mean_def one_point_def one_point_heap_def
        LightCurve_init_def itruediv_def horner_def Let_def fun_eq_iff)
  ultimately show ?thesis
    by (simp add: one_point_heap_def fit_mean_def)
qed


end
